theory Spec2Isabelle
  imports Complex_Main "HOL-Library.AList"
begin

section \<open>Binary64 floating point\<close>

text \<open>
  The numeric columns of the frame, the quartiles and the bounds are IEEE 754 binary64
  numbers.  A value is NaN, an infinity, or a finite number; a finite number is held as
  the real it denotes, and the result of an operation on finite numbers is the exact
  result rounded to the nearest binary64 number, ties to the even significand
  (\<open>round64\<close>).  The sign of zero is not modelled: no comparison of the program
  distinguishes \<open>-0.0\<close> from \<open>0.0\<close>, and a division by zero takes the zero as positive.
\<close>

datatype f64 = NaN | NInf | Fin real | PInf

definition pow2 :: "int \<Rightarrow> real" where
  "pow2 e = (if e \<ge> 0 then 2 ^ nat e else 1 / 2 ^ nat (- e))"

text \<open>Rounding to the nearest integer, ties to even.\<close>

definition rne :: "real \<Rightarrow> int" where
  "rne z =
     (let f = \<lfloor>z\<rfloor>; d = z - of_int f in
      if d < 1/2 then f else if d > 1/2 then f + 1 else if even f then f else f + 1)"

text \<open>The binary exponent \<open>e\<close> of a positive number \<open>a\<close>, with \<open>2^e \<le> a < 2^(e+1)\<close>,
  found by halving or doubling; the range of binary64 bounds the number of steps.\<close>

fun exponent_up :: "nat \<Rightarrow> real \<Rightarrow> int" where
  "exponent_up 0 a = 0"
| "exponent_up (Suc k) a = (if a \<ge> 2 then 1 + exponent_up k (a / 2) else 0)"

fun exponent_down :: "nat \<Rightarrow> real \<Rightarrow> int" where
  "exponent_down 0 a = 0"
| "exponent_down (Suc k) a = (if a < 1 then exponent_down k (a * 2) - 1 else 0)"

definition exponent :: "real \<Rightarrow> int" where
  "exponent a = (if a \<ge> 1 then exponent_up 1024 a else exponent_down 1022 a)"

text \<open>
  Rounding: below \<open>2^-1022\<close> the spacing is that of the subnormal numbers, \<open>2^-1074\<close>;
  otherwise it is \<open>2^(e-52)\<close>; a result of magnitude \<open>2^1024\<close> or more is an infinity.
\<close>

definition round64 :: "real \<Rightarrow> f64" where
  "round64 x =
     (let a = \<bar>x\<bar>;
          e = (if a < pow2 (-1022) then -1022 else exponent a);
          ulp = pow2 (e - 52);
          v = of_int (rne (a / ulp)) * ulp
      in if v \<ge> pow2 1024 then (if x < 0 then NInf else PInf)
         else Fin (if x < 0 then - v else v))"

text \<open>A finite value is a binary64 number when rounding leaves it unchanged.\<close>

fun representable :: "f64 \<Rightarrow> bool" where
  "representable (Fin x) = (round64 x = Fin x)"
| "representable v = True"

fun fneg :: "f64 \<Rightarrow> f64" where
  "fneg NaN = NaN"
| "fneg NInf = PInf"
| "fneg PInf = NInf"
| "fneg (Fin x) = Fin (- x)"

fun fadd :: "f64 \<Rightarrow> f64 \<Rightarrow> f64" where
  "fadd NaN b = NaN"
| "fadd a NaN = NaN"
| "fadd PInf NInf = NaN"
| "fadd NInf PInf = NaN"
| "fadd PInf b = PInf"
| "fadd NInf b = NInf"
| "fadd a PInf = PInf"
| "fadd a NInf = NInf"
| "fadd (Fin x) (Fin y) = round64 (x + y)"

definition fsub :: "f64 \<Rightarrow> f64 \<Rightarrow> f64" where
  "fsub a b = fadd a (fneg b)"

text \<open>The sign of a value that is not NaN: \<open>-1\<close>, \<open>0\<close> or \<open>1\<close>.\<close>

fun fsgn :: "f64 \<Rightarrow> int" where
  "fsgn NaN = 0"
| "fsgn NInf = - 1"
| "fsgn PInf = 1"
| "fsgn (Fin x) = (if x < 0 then - 1 else if x = 0 then 0 else 1)"

fun fmul :: "f64 \<Rightarrow> f64 \<Rightarrow> f64" where
  "fmul NaN b = NaN"
| "fmul a NaN = NaN"
| "fmul (Fin x) (Fin y) = round64 (x * y)"
| "fmul a b =
     (if fsgn a * fsgn b = 0 then NaN else if fsgn a * fsgn b < 0 then NInf else PInf)"

text \<open>Every ordered comparison with NaN is false.\<close>

fun flt :: "f64 \<Rightarrow> f64 \<Rightarrow> bool" where
  "flt NaN b = False"
| "flt a NaN = False"
| "flt PInf b = False"
| "flt a NInf = False"
| "flt NInf b = True"
| "flt a PInf = True"
| "flt (Fin x) (Fin y) = (x < y)"

definition fgt :: "f64 \<Rightarrow> f64 \<Rightarrow> bool" where
  "fgt a b = flt b a"

definition fge :: "f64 \<Rightarrow> f64 \<Rightarrow> bool" where
  "fge a b = (a \<noteq> NaN \<and> b \<noteq> NaN \<and> \<not> flt a b)"

text \<open>Conversion of an integer to binary64.\<close>

definition of_int64 :: "int \<Rightarrow> f64" where
  "of_int64 i = round64 (of_int i)"

text \<open>Division and square root.\<close>

fun fdiv :: "f64 \<Rightarrow> f64 \<Rightarrow> f64" where
  "fdiv NaN b = NaN"
| "fdiv a NaN = NaN"
| "fdiv (Fin x) (Fin y) =
     (if y = 0 then (if x = 0 then NaN else if x < 0 then NInf else PInf)
      else round64 (x / y))"
| "fdiv (Fin x) b = Fin 0"
| "fdiv a (Fin y) = (if fsgn a * (if y < 0 then - 1 else 1) < 0 then NInf else PInf)"
| "fdiv a b = NaN"

fun fsqrt :: "f64 \<Rightarrow> f64" where
  "fsqrt (Fin x) = (if x < 0 then NaN else round64 (sqrt x))"
| "fsqrt PInf = PInf"
| "fsqrt a = NaN"

section \<open>Data model\<close>

text \<open>
  The engine holds a pandas DataFrame read by \<^verbatim>\<open>pd.read_csv\<close>: an ordered sequence of
  named columns.  The engine asks of a column only whether its dtype is numeric
  (\<^verbatim>\<open>np.number\<close>), object/category, or anything else, so a column carries that tag with
  its cells.  A numeric column enters every computation below as binary64 values (an
  integer column is converted), a missing cell being NaN; a cell of an object column is
  a text or missing; a boolean column, the remaining dtype that \<^verbatim>\<open>read_csv\<close> infers, has
  no missing cells.
\<close>

datatype column =
    Numeric "f64 list"
  | Categorical "string option list"
  | Unclassified "bool list"

type_synonym table = "(string \<times> column) list"

record engine =
  df :: table

definition columns :: "table \<Rightarrow> string list" where
  "columns t = map fst t"

fun len :: "column \<Rightarrow> nat" where
  "len (Numeric xs) = length xs"
| "len (Categorical xs) = length xs"
| "len (Unclassified xs) = length xs"

fun cells_representable :: "column \<Rightarrow> bool" where
  "cells_representable (Numeric xs) = list_all representable xs"
| "cells_representable c = True"

text \<open>The frames that \<^verbatim>\<open>read_csv\<close> produces: the column labels are pairwise different
  (repeated header names are renamed), all columns have one length, and the finite
  numeric cells are binary64 numbers.\<close>

definition wf_table :: "table \<Rightarrow> bool" where
  "wf_table t \<longleftrightarrow>
     distinct (columns t) \<and>
     (\<forall>c \<in> set t. \<forall>d \<in> set t. len (snd c) = len (snd d)) \<and>
     (\<forall>c \<in> set t. cells_representable (snd c))"

subsection \<open>Library operations on a numeric series\<close>

text \<open>\<^verbatim>\<open>dropna\<close>: the present values, in row order.\<close>

definition dropna :: "f64 list \<Rightarrow> f64 list" where
  "dropna s = filter (\<lambda>x. x \<noteq> NaN) s"

text \<open>Sorting of values that are not NaN, by insertion.\<close>

fun insort_f64 :: "f64 \<Rightarrow> f64 list \<Rightarrow> f64 list" where
  "insort_f64 x [] = [x]"
| "insort_f64 x (y # ys) = (if flt y x then y # insort_f64 x ys else x # y # ys)"

definition sort_f64 :: "f64 list \<Rightarrow> f64 list" where
  "sort_f64 xs = foldr insort_f64 xs []"

text \<open>
  numpy's interpolation step \<^verbatim>\<open>_lerp(a, b, t)\<close>: \<^verbatim>\<open>a + (b - a) * t\<close>, replaced by
  \<^verbatim>\<open>b - (b - a) * (1 - t)\<close> where \<^verbatim>\<open>t >= 0.5\<close>.
\<close>

definition lerp :: "f64 \<Rightarrow> f64 \<Rightarrow> f64 \<Rightarrow> f64" where
  "lerp a b t =
     (let diff_b_a = fsub b a in
      if fge t (Fin (1/2)) then fsub b (fmul diff_b_a (fsub (Fin 1) t))
      else fadd a (fmul diff_b_a t))"

text \<open>The integer below a finite value (\<^verbatim>\<open>np.floor\<close> and the cast to an index).  The
  index that numpy computes here is finite for every array that fits in memory.\<close>

fun floor64 :: "f64 \<Rightarrow> int" where
  "floor64 (Fin v) = \<lfloor>v\<rfloor>"
| "floor64 a = 0"

text \<open>Python indexing of a list: a negative index counts from the end.\<close>

definition getitem :: "'a list \<Rightarrow> int \<Rightarrow> 'a" where
  "getitem xs i = xs ! nat (if i < 0 then int (length xs) + i else i)"

text \<open>
  \<^verbatim>\<open>Series.quantile(q)\<close> with the default \<^verbatim>\<open>interpolation='linear'\<close>, which pandas hands
  to \<^verbatim>\<open>np.percentile\<close> (numpy 1.22 and later): the missing values are dropped; with
  nothing left the result is NaN; otherwise the values are sorted, the virtual index is
  \<^verbatim>\<open>(n - 1) * q\<close>, the neighbours are the entries at its floor and at the next position,
  both being the last entry when the virtual index is not below \<open>n - 1\<close> and the first
  when it is negative, and the result interpolates between the two with the distance
  of the virtual index from the lower position as weight.
\<close>

definition quantile :: "f64 list \<Rightarrow> real \<Rightarrow> f64" where
  "quantile s q =
     (let arr = sort_f64 (dropna s); n = length arr in
      if n = 0 then NaN
      else
        let virtual_index = fmul (of_int64 (int n - 1)) (Fin q);
            above = fge virtual_index (of_int64 (int n - 1));
            below = flt virtual_index (Fin 0);
            previous_index = (if above then - 1 else if below then 0 else floor64 virtual_index);
            next_index = (if above then - 1 else if below then 0 else floor64 virtual_index + 1);
            gamma = fsub virtual_index (of_int64 previous_index)
        in lerp (getitem arr previous_index) (getitem arr next_index) gamma)"

text \<open>\<^verbatim>\<open>select_dtypes(include=[np.number])\<close>: the numeric columns, in frame order.\<close>

fun select_numeric :: "table \<Rightarrow> (string \<times> f64 list) list" where
  "select_numeric [] = []"
| "select_numeric ((name, Numeric xs) # t) = (name, xs) # select_numeric t"
| "select_numeric ((name, c) # t) = select_numeric t"

section \<open>Outlier detection\<close>

text \<open>
  The body of the loop in \<^verbatim>\<open>detect_outliers_iqr\<close> for one column: the two quartiles,
  the inter-quartile range, the two bounds, and the number of rows for which
  \<^verbatim>\<open>(nums[col] < lower_bound) | (nums[col] > upper_bound)\<close> is true.
\<close>

definition Q1 :: "f64 list \<Rightarrow> f64" where
  "Q1 s = quantile s (1/4)"

definition Q3 :: "f64 list \<Rightarrow> f64" where
  "Q3 s = quantile s (3/4)"

definition IQR :: "f64 list \<Rightarrow> f64" where
  "IQR s = fsub (Q3 s) (Q1 s)"

definition lower_bound :: "f64 list \<Rightarrow> f64" where
  "lower_bound s = fsub (Q1 s) (fmul (Fin (3/2)) (IQR s))"

definition upper_bound :: "f64 list \<Rightarrow> f64" where
  "upper_bound s = fadd (Q3 s) (fmul (Fin (3/2)) (IQR s))"

definition outlier_count :: "f64 list \<Rightarrow> nat" where
  "outlier_count s = length (filter (\<lambda>x. flt x (lower_bound s) \<or> fgt x (upper_bound s)) s)"

text \<open>
  The loop over \<^verbatim>\<open>nums.columns\<close>.  The dictionary \<^verbatim>\<open>outliers\<close> is an association list
  in insertion order; \<^verbatim>\<open>outliers[col] = int(count)\<close> is \<^const>\<open>AList.update\<close>.
  As the labels are pairwise different, \<^verbatim>\<open>nums[col]\<close> is the column met at this
  position of the iteration.
\<close>

fun outliers_loop :: "(string \<times> f64 list) list \<Rightarrow> (string \<times> nat) list \<Rightarrow> (string \<times> nat) list" where
  "outliers_loop [] outliers = outliers"
| "outliers_loop ((col, s) # rest) outliers =
     (let count = outlier_count s in
      outliers_loop rest (if count > 0 then AList.update col count outliers else outliers))"

definition detect_outliers_iqr :: "engine \<Rightarrow> (string \<times> nat) list" where
  "detect_outliers_iqr self = outliers_loop (select_numeric (df self)) []"

section \<open>Missing values\<close>

text \<open>\<^verbatim>\<open>df.isnull().sum()\<close>: per column, the number of missing cells.\<close>

fun isnull_count :: "column \<Rightarrow> nat" where
  "isnull_count (Numeric xs) = length (filter (\<lambda>x. x = NaN) xs)"
| "isnull_count (Categorical xs) = length (filter (\<lambda>x. x = None) xs)"
| "isnull_count (Unclassified xs) = 0"

definition isnull_sum :: "table \<Rightarrow> (string \<times> nat) list" where
  "isnull_sum t = map (\<lambda>(name, c). (name, isnull_count c)) t"

text \<open>\<^verbatim>\<open>Series.to_dict()\<close>: a dictionary built from the (label, value) pairs in order.\<close>

definition to_dict :: "('k \<times> 'v) list \<Rightarrow> ('k \<times> 'v) list" where
  "to_dict kvs = foldl (\<lambda>d (k, v). AList.update k v d) [] kvs"

definition analyze_missing_values :: "engine \<Rightarrow> (string \<times> nat) list" where
  "analyze_missing_values self =
     (let missing = isnull_sum (df self) in
      to_dict (filter (\<lambda>(name, k). k > 0) missing))"

section \<open>Categorical summary\<close>

text \<open>The present values of an object series, in row order.\<close>

fun dropna_object :: "'a option list \<Rightarrow> 'a list" where
  "dropna_object [] = []"
| "dropna_object (None # xs) = dropna_object xs"
| "dropna_object (Some x # xs) = x # dropna_object xs"

text \<open>The distinct values of a list in the order of their first occurrence (the order
  in which pandas' hash table meets them).\<close>

fun unique_values :: "'a list \<Rightarrow> 'a list" where
  "unique_values [] = []"
| "unique_values (x # xs) = x # unique_values (removeAll x xs)"

definition nunique :: "'a option list \<Rightarrow> nat" where
  "nunique s = length (unique_values (dropna_object s))"

text \<open>The counts of the present values before sorting, one entry per distinct value,
  in first-occurrence order.\<close>

definition value_counts_unsorted :: "'a option list \<Rightarrow> ('a \<times> nat) list" where
  "value_counts_unsorted s =
     (let vals = dropna_object s in map (\<lambda>k. (k, count_list vals k)) (unique_values vals))"

text \<open>
  \<^verbatim>\<open>value_counts()\<close> then sorts the counts with \<^verbatim>\<open>sort_values(ascending=False)\<close>, whose
  default algorithm is numpy's \<^verbatim>\<open>argsort(kind='quicksort')\<close>.  That routine is library
  code; it is a parameter \<open>argsort\<close> of the model, from an array to the positions that
  put it in ascending order.  For a descending sort pandas reverses the array, sorts,
  maps the positions back and reverses the result.
\<close>

type_synonym argsort = "nat list \<Rightarrow> nat list"

definition valid_argsort :: "argsort \<Rightarrow> bool" where
  "valid_argsort argsort \<longleftrightarrow>
     (\<forall>xs. distinct (argsort xs) \<and> set (argsort xs) = {0..<length xs} \<and>
           sorted (map (\<lambda>i. xs ! i) (argsort xs)))"

definition nargsort_desc :: "argsort \<Rightarrow> nat list \<Rightarrow> nat list" where
  "nargsort_desc argsort items =
     (let non_nans = rev items;
          non_nan_idx = rev [0..<length items];
          indexer = map (\<lambda>i. non_nan_idx ! i) (argsort non_nans)
      in rev indexer)"

definition value_counts :: "argsort \<Rightarrow> 'a option list \<Rightarrow> ('a \<times> nat) list" where
  "value_counts argsort s =
     (let result = value_counts_unsorted s in
      map (\<lambda>i. result ! i) (nargsort_desc argsort (map snd result)))"

text \<open>Two instances of the parameter: an insertion sort that keeps equal keys in their
  order, and the same with equal keys in the opposite order.\<close>

definition stable_argsort :: argsort where
  "stable_argsort xs = map snd (sort_key fst (zip xs [0..<length xs]))"

definition reversing_argsort :: argsort where
  "reversing_argsort xs = map snd (rev (sort_key (\<lambda>p. - int (fst p)) (zip xs [0..<length xs])))"

record cat_summary =
  unique_count :: nat
  top_freq :: "(string \<times> nat) list"

text \<open>\<^verbatim>\<open>select_dtypes(include=['object', 'category'])\<close>.\<close>

fun select_categorical :: "table \<Rightarrow> (string \<times> string option list) list" where
  "select_categorical [] = []"
| "select_categorical ((name, Categorical xs) # t) = (name, xs) # select_categorical t"
| "select_categorical ((name, c) # t) = select_categorical t"

fun summary_loop ::
  "argsort \<Rightarrow> (string \<times> string option list) list \<Rightarrow> (string \<times> cat_summary) list \<Rightarrow>
   (string \<times> cat_summary) list" where
  "summary_loop argsort [] summary = summary"
| "summary_loop argsort ((col, s) # rest) summary =
     summary_loop argsort rest
       (AList.update col
          \<lparr>unique_count = nunique s, top_freq = to_dict (take 3 (value_counts argsort s))\<rparr>
          summary)"

definition get_categorical_summary :: "argsort \<Rightarrow> engine \<Rightarrow> (string \<times> cat_summary) list" where
  "get_categorical_summary argsort self = summary_loop argsort (select_categorical (df self)) []"

text \<open>The ranking the specification asks for (used only to compare with the code):
  descending count, equal counts in the order in which the values first occur.\<close>

definition spec_top_freq :: "string option list \<Rightarrow> (string \<times> nat) list" where
  "spec_top_freq s = take 3 (sort_key (\<lambda>p. - int (snd p)) (value_counts_unsorted s))"

section \<open>Descriptive statistics\<close>

datatype error = ValueError | FileNotFoundError | ParserError

text \<open>A cell of the frame that \<^verbatim>\<open>describe()\<close> returns: a float for a numeric
  description; a count, a text, a boolean or NaN for the description of other columns.\<close>

datatype stat = Float f64 | Count nat | Text string | Flag bool

text \<open>
  pandas reduces a numeric series with \<^verbatim>\<open>ndarray.sum\<close> after putting 0 in the place of
  the missing values.  The order in which numpy adds the entries of a long array
  depends on its length and on the build, so the summation is a parameter \<open>npsum\<close> of
  the model.
\<close>

type_synonym npsum = "f64 list \<Rightarrow> f64"

definition fillna0 :: "f64 list \<Rightarrow> f64 list" where
  "fillna0 s = map (\<lambda>x. if x = NaN then Fin 0 else x) s"

definition count_present :: "f64 list \<Rightarrow> nat" where
  "count_present s = length (dropna s)"

text \<open>\<^verbatim>\<open>Series.mean()\<close>: the sum over the number of present values, NaN when there
  is none.\<close>

definition mean :: "npsum \<Rightarrow> f64 list \<Rightarrow> f64" where
  "mean npsum s =
     (let count = count_present s in
      if count = 0 then NaN else fdiv (npsum (fillna0 s)) (of_int64 (int count)))"

text \<open>
  \<^verbatim>\<open>Series.std()\<close> with the default \<^verbatim>\<open>ddof=1\<close>: NaN with fewer than two present
  values; otherwise the square root of the sum of the squared deviations from the
  average (0 for a missing cell) over \<open>count - 1\<close>.
\<close>

definition std :: "npsum \<Rightarrow> f64 list \<Rightarrow> f64" where
  "std npsum s =
     (let count = count_present s in
      if count \<le> 1 then NaN
      else
        let avg = fdiv (npsum (fillna0 s)) (of_int64 (int count));
            sqr = map (\<lambda>x. if x = NaN then Fin 0 else fmul (fsub avg x) (fsub avg x)) s
        in fsqrt (fdiv (npsum sqr) (of_int64 (int count - 1))))"

definition fmin :: "f64 \<Rightarrow> f64 \<Rightarrow> f64" where
  "fmin a b = (if flt b a then b else a)"

definition fmax :: "f64 \<Rightarrow> f64 \<Rightarrow> f64" where
  "fmax a b = (if flt a b then b else a)"

fun minimum :: "f64 list \<Rightarrow> f64" where
  "minimum [] = NaN"
| "minimum (x # xs) = fold fmin xs x"

fun maximum :: "f64 list \<Rightarrow> f64" where
  "maximum [] = NaN"
| "maximum (x # xs) = fold fmax xs x"

definition describe_numeric_1d :: "npsum \<Rightarrow> f64 list \<Rightarrow> (string \<times> stat) list" where
  "describe_numeric_1d npsum s =
     [(''count'', Float (of_int64 (int (count_present s)))),
      (''mean'', Float (mean npsum s)),
      (''std'', Float (std npsum s)),
      (''min'', Float (minimum (dropna s))),
      (''25%'', Float (quantile s (1/4))),
      (''50%'', Float (quantile s (1/2))),
      (''75%'', Float (quantile s (3/4))),
      (''max'', Float (maximum (dropna s)))]"

text \<open>The description of a column that is not numeric: the number of present values,
  the number of distinct ones, and the first entry of \<^verbatim>\<open>value_counts()\<close> with its count
  (NaN for both when there is none).\<close>

definition describe_categorical_1d ::
  "argsort \<Rightarrow> ('a \<Rightarrow> stat) \<Rightarrow> 'a option list \<Rightarrow> (string \<times> stat) list" where
  "describe_categorical_1d argsort wrap s =
     (let objcounts = value_counts argsort s;
          count_unique = length (filter (\<lambda>p. snd p \<noteq> 0) objcounts)
      in
      [(''count'', Count (length (dropna_object s))),
       (''unique'', Count count_unique)] @
      (if count_unique > 0
       then [(''top'', wrap (fst (objcounts ! 0))), (''freq'', Count (snd (objcounts ! 0)))]
       else [(''top'', Float NaN), (''freq'', Float NaN)]))"

fun describe_1d :: "argsort \<Rightarrow> npsum \<Rightarrow> column \<Rightarrow> (string \<times> stat) list" where
  "describe_1d argsort npsum (Numeric s) = describe_numeric_1d npsum s"
| "describe_1d argsort npsum (Categorical s) = describe_categorical_1d argsort Text s"
| "describe_1d argsort npsum (Unclassified s) = describe_categorical_1d argsort Flag (map Some s)"

text \<open>
  \<^verbatim>\<open>DataFrame.describe()\<close> with its default arguments: a frame without columns is
  refused; when some column is numeric only the numeric columns are described; when
  none is, every column is described.
\<close>

definition describe ::
  "argsort \<Rightarrow> npsum \<Rightarrow> table \<Rightarrow> error + (string \<times> (string \<times> stat) list) list" where
  "describe argsort npsum t =
     (if t = [] then Inl ValueError
      else
        let data = select_numeric t in
        if data = [] then Inr (map (\<lambda>(name, c). (name, describe_1d argsort npsum c)) t)
        else Inr (map (\<lambda>(name, s). (name, describe_numeric_1d npsum s)) data))"

definition get_basic_stats ::
  "argsort \<Rightarrow> npsum \<Rightarrow> engine \<Rightarrow> error + (string \<times> (string \<times> stat) list) list" where
  "get_basic_stats argsort npsum self =
     (case describe argsort npsum (df self) of
        Inl e \<Rightarrow> Inl e
      | Inr desc \<Rightarrow> Inr (to_dict desc))"

section \<open>Correlations\<close>

text \<open>\<^verbatim>\<open>DataFrame.empty\<close>: some axis has length 0.\<close>

definition empty :: "(string \<times> f64 list) list \<Rightarrow> bool" where
  "empty nums = (case nums of [] \<Rightarrow> True | (name, s) # rest \<Rightarrow> s = [])"

text \<open>
  \<^verbatim>\<open>DataFrame.corr()\<close> with its defaults (\<^verbatim>\<open>method='pearson'\<close>, \<^verbatim>\<open>min_periods=1\<close>) runs
  pandas' \<^verbatim>\<open>nancorr\<close>.  For a pair of columns it goes through the rows in which both
  values are finite and updates the number of observations, the two running means, the
  two sums of squared deviations and the sum of the products of the deviations.
\<close>

record welford =
  nobs :: nat
  meanx :: f64
  meany :: f64
  ssqdm_x :: f64
  ssqdm_y :: f64
  covxy :: f64

fun isfinite :: "f64 \<Rightarrow> bool" where
  "isfinite (Fin x) = True"
| "isfinite a = False"

definition welford_step :: "welford \<Rightarrow> f64 \<times> f64 \<Rightarrow> welford" where
  "welford_step w row =
     (let vx = fst row; vy = snd row in
      if isfinite vx \<and> isfinite vy then
        let n = nobs w + 1;
            dx = fsub vx (meanx w);
            dy = fsub vy (meany w);
            mx = fadd (meanx w) (fmul (fdiv (Fin 1) (of_int64 (int n))) dx);
            my = fadd (meany w) (fmul (fdiv (Fin 1) (of_int64 (int n))) dy)
        in \<lparr>nobs = n, meanx = mx, meany = my,
            ssqdm_x = fadd (ssqdm_x w) (fmul (fsub vx mx) dx),
            ssqdm_y = fadd (ssqdm_y w) (fmul (fsub vy my) dy),
            covxy = fadd (covxy w) (fmul (fsub vx mx) dy)\<rparr>
      else w)"

definition welford_init :: welford where
  "welford_init = \<lparr>nobs = 0, meanx = Fin 0, meany = Fin 0,
                    ssqdm_x = Fin 0, ssqdm_y = Fin 0, covxy = Fin 0\<rparr>"

text \<open>The coefficient of one pair: NaN without an observation or with divisor 0.\<close>

definition nancorr_pair :: "f64 list \<Rightarrow> f64 list \<Rightarrow> f64" where
  "nancorr_pair xs ys =
     (let w = foldl welford_step welford_init (zip xs ys) in
      if nobs w < 1 then NaN
      else
        let divisor = fsqrt (fmul (ssqdm_x w) (ssqdm_y w)) in
        if divisor \<noteq> NaN \<and> divisor \<noteq> Fin 0 then fdiv (covxy w) divisor else NaN)"

text \<open>
  \<^verbatim>\<open>nancorr\<close> computes the coefficient of columns \<open>xi\<close> and \<open>yi \<le> xi\<close> once and stores it
  at both \<open>[xi, yi]\<close> and \<open>[yi, xi]\<close>.
\<close>

definition corr_entry :: "(string \<times> f64 list) list \<Rightarrow> nat \<Rightarrow> nat \<Rightarrow> f64" where
  "corr_entry nums i j =
     (let xi = max i j; yi = min i j in nancorr_pair (snd (nums ! xi)) (snd (nums ! yi)))"

text \<open>\<^verbatim>\<open>nums.corr().to_dict()\<close>: for every column label the dictionary of its
  coefficients, keyed by the row labels of the matrix.\<close>

definition corr_to_dict :: "(string \<times> f64 list) list \<Rightarrow> (string \<times> (string \<times> f64) list) list" where
  "corr_to_dict nums =
     to_dict (map (\<lambda>j. (fst (nums ! j),
                to_dict (map (\<lambda>i. (fst (nums ! i), corr_entry nums i j)) [0..<length nums])))
              [0..<length nums])"

definition get_correlations :: "engine \<Rightarrow> (string \<times> (string \<times> f64) list) list" where
  "get_correlations self =
     (let nums = select_numeric (df self) in
      if empty nums then [] else corr_to_dict nums)"

section \<open>Construction\<close>

text \<open>
  \<^verbatim>\<open>EDAEngine.__init__\<close> hands its argument to \<^verbatim>\<open>pd.read_csv\<close>.  What the argument is
  at run time is either a path or (as \<^verbatim>\<open>ReportGenerator.__init__\<close> passes it) a frame.
  Parsing a file is outside the model: \<open>loader\<close> gives for every path either the frame
  that \<^verbatim>\<open>read_csv\<close> parses there or the error it raises.  An argument that is neither a
  path nor a buffer makes \<^verbatim>\<open>read_csv\<close> raise \<^verbatim>\<open>ValueError\<close>.
\<close>

datatype source = Path string | Frame table

type_synonym loader = "string \<Rightarrow> error + table"

fun read_csv :: "loader \<Rightarrow> source \<Rightarrow> error + table" where
  "read_csv loader (Path p) = loader p"
| "read_csv loader (Frame t) = Inl ValueError"

definition EDAEngine_init :: "loader \<Rightarrow> source \<Rightarrow> error + engine" where
  "EDAEngine_init loader data_path =
     (case read_csv loader data_path of
        Inl e \<Rightarrow> Inl e
      | Inr t \<Rightarrow> Inr \<lparr>df = t\<rparr>)"

text \<open>The engine that \<^verbatim>\<open>ReportGenerator.__init__\<close> builds: \<^verbatim>\<open>self.engine = EDAEngine(df)\<close>.\<close>

definition ReportGenerator_engine :: "loader \<Rightarrow> table \<Rightarrow> error + engine" where
  "ReportGenerator_engine loader d = EDAEngine_init loader (Frame d)"

section \<open>Calls on an engine\<close>

text \<open>
  A method call takes the engine and gives back its result together with the engine as
  the call leaves it.  None of the five methods assigns to \<^verbatim>\<open>self.df\<close> or calls an
  in-place operation of the frame: each works on frames and series that pandas derives
  afresh.
\<close>

datatype analysis = BasicStats | MissingValues | CategoricalSummary | Correlations | Outliers

datatype result =
    Stats "error + (string \<times> (string \<times> stat) list) list"
  | Missing "(string \<times> nat) list"
  | Summary "(string \<times> cat_summary) list"
  | Corr "(string \<times> (string \<times> f64) list) list"
  | OutlierCounts "(string \<times> nat) list"

fun call :: "argsort \<Rightarrow> npsum \<Rightarrow> analysis \<Rightarrow> engine \<Rightarrow> result \<times> engine" where
  "call argsort npsum BasicStats self = (Stats (get_basic_stats argsort npsum self), self)"
| "call argsort npsum MissingValues self = (Missing (analyze_missing_values self), self)"
| "call argsort npsum CategoricalSummary self =
     (Summary (get_categorical_summary argsort self), self)"
| "call argsort npsum Correlations self = (Corr (get_correlations self), self)"
| "call argsort npsum Outliers self = (OutlierCounts (detect_outliers_iqr self), self)"

fun run :: "argsort \<Rightarrow> npsum \<Rightarrow> analysis list \<Rightarrow> engine \<Rightarrow> result list \<times> engine" where
  "run argsort npsum [] self = ([], self)"
| "run argsort npsum (a # as) self =
     (let (r, self1) = call argsort npsum a self;
          (rs, self2) = run argsort npsum as self1
      in (r # rs, self2))"

section \<open>The sample table of the test suite\<close>


text \<open>A table with a numeric column in which every value is missing.\<close>

definition all_missing :: engine where
  "all_missing = \<lparr>df = [(''E'', Numeric [NaN, NaN, NaN]), (''F'', Numeric [Fin 1, Fin 2, Fin 3])]\<rparr>"

section \<open>Properties of rounding\<close>

lemma pow2_pos: "0 < pow2 e"
  by (simp add: pow2_def)

lemma pow2_add1: "pow2 (e + 1) = 2 * pow2 e"
proof (cases "e \<ge> 0")
  case True
  then show ?thesis by (simp add: pow2_def nat_add_distrib)
next
  case False
  then have "nat (- e) = Suc (nat (- (e + 1)))" by simp
  then show ?thesis using False by (simp add: pow2_def)
qed

lemma pow2_mono: "e \<le> f \<Longrightarrow> pow2 e \<le> pow2 f"
proof -
  have "pow2 e \<le> pow2 (e + int k)" for k
  proof (induction k)
    case 0
    then show ?case by simp
  next
    case (Suc k)
    have "pow2 (e + int (Suc k)) = 2 * pow2 (e + int k)"
      using pow2_add1[of "e + int k"] by (simp add: algebra_simps)
    then show ?case using Suc pow2_pos[of "e + int k"] by simp
  qed
  moreover assume "e \<le> f"
  then have "f = e + int (nat (f - e))" by simp
  ultimately show ?thesis by metis
qed

lemma exponent_up_correct:
  "2 ^ n \<le> a \<Longrightarrow> a < 2 ^ Suc n \<Longrightarrow> n \<le> k \<Longrightarrow> exponent_up k a = int n"
proof (induction n arbitrary: a k)
  case 0
  then show ?case by (cases k) simp_all
next
  case (Suc n)
  from Suc.prems obtain k' where k: "k = Suc k'" "n \<le> k'" by (cases k) simp_all
  have a2: "2 \<le> a"
  proof -
    have "(1::real) \<le> 2 ^ n" by (rule one_le_power) simp
    moreover have "2 * 2 ^ n \<le> a" using Suc.prems(1) by simp
    ultimately show ?thesis by linarith
  qed
  have "exponent_up k' (a / 2) = int n"
    using Suc.prems k by (intro Suc.IH) simp_all
  then show ?case using k a2 by simp
qed

lemma exponent_down_correct:
  "1 / 2 ^ Suc n \<le> a \<Longrightarrow> a < 1 / 2 ^ n \<Longrightarrow> Suc n \<le> k \<Longrightarrow> exponent_down k a = - int (Suc n)"
proof (induction n arbitrary: a k)
  case 0
  then obtain k' where k: "k = Suc k'" by (cases k) simp_all
  have "exponent_down k' (a * 2) = 0" using 0 by (cases k') simp_all
  then show ?case using 0 k by simp
next
  case (Suc n)
  from Suc.prems obtain k' where k: "k = Suc k'" "Suc n \<le> k'" by (cases k) simp_all
  have "(1::real) \<le> 2 ^ Suc n" by (rule one_le_power) simp
  then have "(1::real) / 2 ^ Suc n \<le> 1" by (simp add: divide_le_eq_1)
  then have a1: "a < 1" using Suc.prems(2) by linarith
  have "exponent_down k' (a * 2) = - int (Suc n)"
    using Suc.prems k by (intro Suc.IH) (simp_all add: field_simps)
  then show ?case using k a1 by simp
qed

lemma exponent_pow2:
  assumes "pow2 e \<le> a" "a < pow2 (e + 1)" "- 1022 \<le> e" "e \<le> 1023"
  shows "exponent a = e"
proof (cases "e \<ge> 0")
  case True
  then have "2 ^ nat e \<le> a" "a < 2 ^ Suc (nat e)"
    using assms by (simp_all add: pow2_def nat_add_distrib)
  moreover have "nat e \<le> 1024" using assms by simp
  ultimately have "exponent_up 1024 a = int (nat e)" by (rule exponent_up_correct)
  moreover have "1 \<le> a"
  proof -
    have "(1::real) \<le> 2 ^ nat e" by (rule one_le_power) simp
    then show ?thesis using \<open>2 ^ nat e \<le> a\<close> by linarith
  qed
  ultimately show ?thesis using True by (simp add: exponent_def)
next
  case False
  then obtain n where n: "e = - int (Suc n)"
    by (metis add.inverse_inverse int_nat_eq linorder_not_le nat_0_iff not0_implies_Suc
        neg_0_le_iff_le nle_le)
  have e1: "e + 1 = - int n" using n by simp
  have ne: "nat (- e) = Suc n" using n by simp
  have pe: "pow2 e = 1 / 2 ^ Suc n" using False ne by (simp add: pow2_def)
  have pe1: "pow2 (e + 1) = 1 / 2 ^ n"
  proof (cases n)
    case 0
    then show ?thesis unfolding e1 by (simp add: pow2_def)
  next
    case (Suc m)
    then have "nat (int n) = n" "\<not> (- int n \<ge> 0)" by simp_all
    then show ?thesis unfolding e1 pow2_def by simp
  qed
  have "1 / 2 ^ Suc n \<le> a" using assms(1) unfolding pe .
  moreover have "a < 1 / 2 ^ n" using assms(2) unfolding pe1 .
  moreover have "Suc n \<le> 1022" using assms(3) n by simp
  ultimately have "exponent_down 1022 a = - int (Suc n)" by (rule exponent_down_correct)
  moreover have "a < 1"
  proof -
    have "(1::real) \<le> 2 ^ n" by (rule one_le_power) simp
    then have "(1::real) / 2 ^ n \<le> 1" by (simp add: divide_le_eq_1)
    then show ?thesis using \<open>a < 1 / 2 ^ n\<close> by linarith
  qed
  ultimately show ?thesis using n by (simp add: exponent_def)
qed


lemma rne_of_int: "rne (of_int m) = m"
  by (simp add: rne_def)

lemma rne_le: "of_int (rne z) \<le> z + 1/2"
proof (cases "z - of_int \<lfloor>z\<rfloor> < 1/2")
  case True
  then have "rne z = \<lfloor>z\<rfloor>" by (simp add: rne_def Let_def)
  moreover have "of_int \<lfloor>z\<rfloor> \<le> z + 1/2"
    using of_int_floor_le[of z] by linarith
  ultimately show ?thesis by simp
next
  case False
  have "rne z \<le> \<lfloor>z\<rfloor> + 1" by (simp add: rne_def Let_def)
  then have "(of_int (rne z) :: real) \<le> of_int (\<lfloor>z\<rfloor> + 1)" by (rule of_int_le_iff[THEN iffD2])
  then show ?thesis using False by simp
qed

lemma rne_nonneg: "0 \<le> z \<Longrightarrow> 0 \<le> rne z"
  unfolding rne_def Let_def by (auto simp: not_less)

lemma exponent_up_le: "exponent_up k a \<le> int k"
  by (induction k arbitrary: a) auto

lemma exponent_down_le: "exponent_down k a \<le> 0"
proof (induction k arbitrary: a)
  case 0
  then show ?case by simp
next
  case (Suc k)
  show ?case using Suc[of "a * 2"] by simp
qed

lemma exponent_le: "exponent a \<le> 1024"
  using exponent_up_le[of 1024 a] exponent_down_le[of 1022 a] by (simp add: exponent_def)

lemma pow2_sum: "pow2 (e + 1) = pow2 e + pow2 e"
  by (simp add: pow2_add1)

lemma round64_zero: "round64 0 = Fin 0"
  using pow2_pos[of "- 1022"] pow2_pos[of "- 1074"] pow2_pos[of 1024]
  by (simp add: round64_def Let_def rne_def)

lemma round64_finite:
  assumes "\<bar>x\<bar> < pow2 1023"
  shows "\<exists>y. round64 x = Fin y \<and> \<bar>y\<bar> \<le> \<bar>x\<bar> + pow2 971"
proof -
  define a where "a = \<bar>x\<bar>"
  define e where "e = (if a < pow2 (- 1022) then - 1022 else exponent a)"
  define ulp where "ulp = pow2 (e - 52)"
  define v where "v = of_int (rne (a / ulp)) * ulp"
  have e: "e \<le> 1024" using exponent_le[of a] by (simp add: e_def)
  have up: "0 < ulp" by (simp add: ulp_def pow2_pos)
  have "ulp \<le> pow2 972" unfolding ulp_def using e by (intro pow2_mono) simp
  also have "\<dots> = 2 * pow2 971" using pow2_add1[of 971] by simp
  finally have u: "ulp / 2 \<le> pow2 971" by simp
  have "of_int (rne (a / ulp)) \<le> a / ulp + 1/2" by (rule rne_le)
  then have "v \<le> (a / ulp + 1/2) * ulp" unfolding v_def using up by (simp add: mult_right_mono)
  also have "\<dots> = a + ulp / 2" using up by (simp add: field_simps)
  finally have vb: "v \<le> a + pow2 971" using u by linarith
  have v0: "0 \<le> v" unfolding v_def using up rne_nonneg[of "a / ulp"] by (simp add: a_def)
  have "pow2 971 \<le> pow2 1023" by (intro pow2_mono) simp
  then have "v < pow2 1023 + pow2 1023" using vb assms by (simp add: a_def)
  also have "\<dots> = pow2 1024" using pow2_sum[of 1023] by simp
  finally have nov: "\<not> pow2 1024 \<le> v" by simp
  have "round64 x = Fin (if x < 0 then - v else v)"
    using nov unfolding round64_def Let_def a_def[symmetric] e_def[symmetric] ulp_def[symmetric] v_def[symmetric]
    by simp
  moreover have "\<bar>if x < 0 then - v else v\<bar> \<le> \<bar>x\<bar> + pow2 971"
    using v0 vb unfolding a_def by (cases "x < 0") simp_all
  ultimately show ?thesis by blast
qed

lemma round64_normal:
  assumes "pow2 e \<le> \<bar>x\<bar>" "\<bar>x\<bar> < pow2 (e + 1)" "- 1022 \<le> e" "e \<le> 1022"
  shows "round64 x =
     Fin (if x < 0 then - (of_int (rne (\<bar>x\<bar> / pow2 (e - 52))) * pow2 (e - 52))
          else of_int (rne (\<bar>x\<bar> / pow2 (e - 52))) * pow2 (e - 52))"
proof -
  have "pow2 (- 1022) \<le> pow2 e" using assms(3) by (rule pow2_mono)
  then have sub: "\<not> \<bar>x\<bar> < pow2 (- 1022)" using assms(1) by linarith
  have ex: "exponent \<bar>x\<bar> = e" using assms by (intro exponent_pow2) simp_all
  have "pow2 (e + 1) \<le> pow2 1023" using assms(4) by (intro pow2_mono) simp
  then have "\<bar>x\<bar> < pow2 1023" using assms(2) by linarith
  from round64_finite[OF this] obtain y where y: "round64 x = Fin y" by blast
  then show ?thesis
    unfolding round64_def Let_def using sub ex by (simp split: if_splits)
qed

lemma round64_exact:
  assumes "pow2 e \<le> \<bar>x\<bar>" "\<bar>x\<bar> < pow2 (e + 1)" "- 1022 \<le> e" "e \<le> 1022"
    and "\<bar>x\<bar> / pow2 (e - 52) = of_int m"
  shows "round64 x = Fin x"
proof -
  have "of_int m * pow2 (e - 52) = \<bar>x\<bar>"
    using assms(5) pow2_pos[of "e - 52"] by (simp add: field_simps)
  then show ?thesis
    unfolding round64_normal[OF assms(1-4)] assms(5) rne_of_int by simp
qed

lemma round64_neg: "round64 (- x) = fneg (round64 x)"
proof (cases "x = 0")
  case True
  then show ?thesis by (simp add: round64_zero)
next
  case False
  then show ?thesis unfolding round64_def Let_def by (auto simp: not_less)
qed

lemma round64_of_nat:
  assumes "n < 2 ^ 53"
  shows "round64 (real n) = Fin (real n)"
proof (cases "n = 0")
  case True
  then show ?thesis by (simp add: round64_zero)
next
  case False
  then have "1 \<le> n" by simp
  then obtain e where e: "2 ^ e \<le> n" "n < 2 ^ (e + 1)"
    using ex_power_ivl1[of 2 n] by auto
  have e53: "e < 53"
  proof (rule power_less_imp_less_exp)
    show "(1::nat) < 2" by simp
    show "(2::nat) ^ e < 2 ^ 53" using e(1) assms by linarith
  qed
  have p: "pow2 (int e) = 2 ^ e" "pow2 (int e + 1) = 2 ^ (e + 1)"
    by (simp_all add: pow2_def nat_add_distrib)
  have b1: "pow2 (int e) \<le> \<bar>real n\<bar>"
    unfolding p using e(1) by (metis abs_of_nat of_nat_le_iff of_nat_numeral of_nat_power)
  have b2: "\<bar>real n\<bar> < pow2 (int e + 1)"
    unfolding p using e(2) by (metis abs_of_nat of_nat_less_iff of_nat_numeral of_nat_power)
  have q: "pow2 (int e - 52) = 1 / 2 ^ (52 - e)"
  proof (cases "e = 52")
    case True
    then show ?thesis by (simp add: pow2_def)
  next
    case False
    then have "\<not> (int e - 52 \<ge> 0)" "nat (- (int e - 52)) = 52 - e" using e53 by simp_all
    then show ?thesis by (simp add: pow2_def)
  qed
  have m: "\<bar>real n\<bar> / pow2 (int e - 52) = of_int (int n * 2 ^ (52 - e))"
    unfolding q by simp
  have r: "- 1022 \<le> int e" "int e \<le> 1022" using e53 by simp_all
  show ?thesis by (rule round64_exact[OF b1 b2 r m])
qed

lemma round64_of_int:
  assumes "\<bar>i\<bar> < 2 ^ 53"
  shows "round64 (of_int i) = Fin (of_int i)"
proof (cases "i \<ge> 0")
  case True
  then have "nat i < 2 ^ 53" using assms by (simp add: nat_less_iff)
  then have "round64 (real (nat i)) = Fin (real (nat i))" by (rule round64_of_nat)
  then show ?thesis using True by simp
next
  case False
  then have "nat (- i) < 2 ^ 53" using assms by (simp add: nat_less_iff)
  then have "round64 (real (nat (- i))) = Fin (real (nat (- i)))" by (rule round64_of_nat)
  then have "round64 (- of_int i) = Fin (- of_int i)" using False by simp
  then have "fneg (round64 (of_int i)) = Fin (- of_int i)" by (simp add: round64_neg)
  then show ?thesis by (cases "round64 (real_of_int i)") simp_all
qed

lemma round64_numeral:
  "(numeral k :: int) < 2 ^ 53 \<Longrightarrow> round64 (numeral k) = Fin (numeral k)"
  using round64_of_int[of "numeral k"] by simp

lemma round64_one: "round64 1 = Fin 1"
  using round64_of_int[of 1] by simp

section \<open>Properties of the library operations\<close>

lemma fadd_NaN_right: "fadd a NaN = NaN"
  by (cases a) simp_all

lemma fsub_NaN: "fsub NaN b = NaN" "fsub a NaN = NaN"
  by (simp_all add: fsub_def fadd_NaN_right)

lemma fmul_NaN_right: "fmul a NaN = NaN"
  by (cases a) simp_all

lemma flt_NaN_right: "\<not> flt a NaN"
  by (cases a) simp_all

lemma nan_compare: "\<not> flt x NaN" "\<not> fgt x NaN"
  by (simp_all add: fgt_def flt_NaN_right)

lemma dropna_Nil_iff: "dropna s = [] \<longleftrightarrow> (\<forall>x \<in> set s. x = NaN)"
  by (auto simp: dropna_def filter_empty_conv)

lemma quantile_all_missing: "dropna s = [] \<Longrightarrow> quantile s q = NaN"
  by (simp add: quantile_def sort_f64_def)

lemma all_missing_bounds:
  assumes "\<forall>x \<in> set s. x = NaN"
  shows "Q1 s = NaN" "Q3 s = NaN" "IQR s = NaN" "lower_bound s = NaN" "upper_bound s = NaN"
    "outlier_count s = 0"
proof -
  have d: "dropna s = []" using assms by (simp add: dropna_Nil_iff)
  show q1: "Q1 s = NaN" by (simp add: Q1_def quantile_all_missing d)
  show q3: "Q3 s = NaN" by (simp add: Q3_def quantile_all_missing d)
  show i: "IQR s = NaN" by (simp add: IQR_def q1 q3 fsub_NaN)
  show l: "lower_bound s = NaN" by (simp add: lower_bound_def q1 fsub_NaN)
  show u: "upper_bound s = NaN" by (simp add: upper_bound_def q3)
  show "outlier_count s = 0" by (simp add: outlier_count_def l u nan_compare)
qed

lemma select_numeric_set: "(name, s) \<in> set (select_numeric t) \<longleftrightarrow> (name, Numeric s) \<in> set t"
  by (induction t rule: select_numeric.induct) auto

lemma select_numeric_keys: "fst ` set (select_numeric t) \<subseteq> fst ` set t"
  by (induction t rule: select_numeric.induct) auto

lemma select_numeric_fresh: "name \<notin> fst ` set t \<Longrightarrow> name \<notin> fst ` set (select_numeric t)"
  using select_numeric_keys[of t] by blast

lemma select_numeric_distinct: "distinct (map fst t) \<Longrightarrow> distinct (map fst (select_numeric t))"
  by (induction t rule: select_numeric.induct) (simp_all add: select_numeric_fresh)

lemma outliers_loop_lookup:
  "distinct (map fst cols) \<Longrightarrow>
   map_of (outliers_loop cols acc) k =
     (case map_of cols k of
        None \<Rightarrow> map_of acc k
      | Some s \<Rightarrow> if outlier_count s > 0 then Some (outlier_count s) else map_of acc k)"
proof (induction cols acc rule: outliers_loop.induct)
  case (1 outliers)
  then show ?case by simp
next
  case (2 col s rest outliers)
  then have "map_of rest col = None" by (simp add: map_of_eq_None_iff)
  with 2 show ?case
    by (auto simp: Let_def AList.update_conv' split: option.splits)
qed



lemma detect_outliers_lookup:
  assumes "wf_table (df self)" and "(name, Numeric s) \<in> set (df self)"
  shows "map_of (detect_outliers_iqr self) name =
         (if outlier_count s > 0 then Some (outlier_count s) else None)"
proof -
  have d: "distinct (map fst (select_numeric (df self)))"
    using assms(1) by (simp add: wf_table_def columns_def select_numeric_distinct)
  then have "map_of (select_numeric (df self)) name = Some s"
    using assms(2) by (simp add: select_numeric_set)
  then show ?thesis
    unfolding detect_outliers_iqr_def by (simp add: outliers_loop_lookup[OF d])
qed







section \<open>The sample table\<close>










section \<open>Missing values and outliers: only positive counts\<close>



section \<open>Outlier detection: a column without present values\<close>


text \<open>
  Claim C10.  For a numeric column of a well-formed table in which every value is missing,
  the quartiles, the inter-quartile range and both bounds are NaN, no value compares
  below the lower or above the upper bound, the count is 0 and the column has no entry
  in the result of the outlier detector.  (The detector has no raising branch: it
  returns a dictionary for every table.)
\<close>

theorem all_missing_column_omitted:
  assumes "wf_table (df self)" and "(name, Numeric s) \<in> set (df self)"
    and "\<forall>x \<in> set s. x = NaN"
  shows "Q1 s = NaN \<and> Q3 s = NaN \<and> IQR s = NaN \<and>
         lower_bound s = NaN \<and> upper_bound s = NaN \<and>
         (\<forall>x. \<not> flt x (lower_bound s) \<and> \<not> fgt x (upper_bound s)) \<and>
         outlier_count s = 0 \<and>
         map_of (detect_outliers_iqr self) name = None \<and>
         name \<notin> fst ` set (detect_outliers_iqr self)"
proof -
  note m = all_missing_bounds[OF assms(3)]
  have l: "map_of (detect_outliers_iqr self) name = None"
    using detect_outliers_lookup[OF assms(1,2)] m(6) by simp
  then have "name \<notin> fst ` set (detect_outliers_iqr self)"
    by (simp add: map_of_eq_None_iff)
  with m l show ?thesis by (simp add: nan_compare)
qed

lemma wf_all_missing: "wf_table (df all_missing)"
  by (simp add: wf_table_def all_missing_def columns_def round64_numeral round64_one)

theorem all_missing_column_omitted_witness:
  "wf_table (df all_missing) \<and>
   (''E'', Numeric [NaN, NaN, NaN]) \<in> set (df all_missing) \<and>
   Q1 [NaN, NaN, NaN] = NaN \<and> Q3 [NaN, NaN, NaN] = NaN \<and>
   lower_bound [NaN, NaN, NaN] = NaN \<and> upper_bound [NaN, NaN, NaN] = NaN \<and>
   outlier_count [NaN, NaN, NaN] = 0 \<and>
   map_of (detect_outliers_iqr all_missing) ''E'' = None"
proof -
  have m: "(''E'', Numeric [NaN, NaN, NaN]) \<in> set (df all_missing)"
    by (simp add: all_missing_def)
  have n: "\<forall>x \<in> set [NaN, NaN, NaN]. x = NaN" by simp
  show ?thesis
    using all_missing_column_omitted[OF wf_all_missing m n] wf_all_missing m by simp
qed

end
